theory Spec2Isabelle
  imports Main "HOL-Library.Word" "HOL-Library.Sublist"
begin

unbundle bit_operations_syntax

section \<open>wdled: the LED mode page of WD My Passport disks\<close>

text \<open>
  A shallow embedding of \<^verbatim>\<open>wdled.c\<close>. The program is one \<^verbatim>\<open>main\<close>
  function; the model follows it top to bottom: argument processing, opening the device,
  the inquiry and the vendor/product tables, the fetch of the four page controls, the
  checks on the pages, the report, and the MODE SELECT packet.

  The sg3\_utils library calls (\<^verbatim>\<open>sg_cmds_open_device\<close>,
  \<^verbatim>\<open>sg_simple_inquiry\<close>, \<^verbatim>\<open>sg_get_mode_page_controls\<close>,
  \<^verbatim>\<open>sg_ll_mode_select10\<close>) are not part of the program: they are parameters of the
  model (the record \<open>env\<close>), and every call made is recorded in a trace.
\<close>

subsection \<open>Constants\<close>

type_synonym byte = "8 word"

definition PAGE_CODE :: byte where "PAGE_CODE = 0x21"
definition PAGE_MAGIC :: byte where "PAGE_MAGIC = 0x30"
definition PS_BIT :: byte where "PS_BIT = push_bit 7 1"
definition SPF_BIT :: byte where "SPF_BIT = push_bit 6 1"

definition wd_products :: "string list" where
  "wd_products =
     [''My Passport 259D'', ''My Passport 259E'', ''My Passport 259F'',
      ''My Passport 259A'', ''My Passport 25E1'', ''My Passport 25E2'']"

text \<open>The \<^verbatim>\<open>NULL\<close> entry that ends each C table is the end of the list.\<close>

definition supported :: "(string \<times> string list) list" where
  "supported = [(''WD      '', wd_products)]"

subsection \<open>The page and the mode parameter header\<close>

text \<open>
  \<^verbatim>\<open>struct page\<close> is two header bytes and a union of the ten named bytes
  \<^verbatim>\<open>wd21\<close> with \<^verbatim>\<open>bytes[32]\<close>. The record keeps the named view and holds the
  bytes of the union that lie behind \<^verbatim>\<open>wd21\<close> (\<^verbatim>\<open>bytes[10..31]\<close>) in \<open>pad\<close>.
\<close>

record wd21_payload =
  magic :: byte
  zeros0 :: byte
  zeros1 :: byte
  unknown1 :: byte
  zeros2 :: byte
  zeros3 :: byte
  led :: byte
  zeros4 :: byte
  zeros5 :: byte
  zeros6 :: byte

record page =
  code :: byte
  len :: byte
  wd21 :: wd21_payload
  pad :: "byte list"

record mode_parameter_header =
  mph_len :: "16 word"
  medium_type :: byte
  flags0 :: byte
  flags1 :: byte
  reserved :: byte
  block_descriptor_length :: "16 word"

text \<open>\<^verbatim>\<open>sizeof(current.wd21)\<close> and \<^verbatim>\<open>sizeof(packet.header)\<close>.\<close>

definition sizeof_wd21 :: nat where "sizeof_wd21 = 10"
definition sizeof_header :: nat where "sizeof_header = 8"

text \<open>The bytes of the structs in memory, in address order.\<close>

definition wd21_bytes :: "wd21_payload \<Rightarrow> byte list" where
  "wd21_bytes w =
     [magic w, zeros0 w, zeros1 w, unknown1 w, zeros2 w,
      zeros3 w, led w, zeros4 w, zeros5 w, zeros6 w]"

definition page_bytes :: "page \<Rightarrow> byte list" where
  "page_bytes p = [code p, len p] @ wd21_bytes (wd21 p) @ pad p"

text \<open>A 16-bit field in the byte order of the host (low byte first).\<close>

definition u16_bytes :: "16 word \<Rightarrow> byte list" where
  "u16_bytes w = [ucast w, ucast (drop_bit 8 w)]"

definition header_bytes :: "mode_parameter_header \<Rightarrow> byte list" where
  "header_bytes h =
     u16_bytes (mph_len h) @ [medium_type h, flags0 h, flags1 h, reserved h]
       @ u16_bytes (block_descriptor_length h)"

text \<open>
  Reading a buffer through \<^verbatim>\<open>struct page\<close>: every byte pattern is a page. A byte
  the buffer does not hold reads as zero, as in the zero-initialised structs of
  \<^verbatim>\<open>main\<close>.
\<close>

definition byte_at :: "byte list \<Rightarrow> nat \<Rightarrow> byte" where
  "byte_at bs i = (if i < length bs then bs ! i else 0)"

definition page_of_bytes :: "byte list \<Rightarrow> page" where
  "page_of_bytes bs =
     \<lparr>code = byte_at bs 0, len = byte_at bs 1,
      wd21 = \<lparr>magic = byte_at bs 2, zeros0 = byte_at bs 3, zeros1 = byte_at bs 4,
              unknown1 = byte_at bs 5, zeros2 = byte_at bs 6, zeros3 = byte_at bs 7,
              led = byte_at bs 8, zeros4 = byte_at bs 9, zeros5 = byte_at bs 10,
              zeros6 = byte_at bs 11\<rparr>,
      pad = drop 12 bs\<rparr>"

subsection \<open>The MODE SELECT packet\<close>

text \<open>
  \<^verbatim>\<open>struct { struct mode_parameter_header header; struct page page; } packet\<close>,
  built by \<^verbatim>\<open>memset\<close>, \<^verbatim>\<open>memcpy\<close>, the masking of the code byte and the
  store of the new LED value. The value is an \<^verbatim>\<open>int\<close> stored into a
  \<^verbatim>\<open>uint8_t\<close>.
\<close>

record packet =
  header :: mode_parameter_header
  page :: page

definition zero_header :: mode_parameter_header where
  "zero_header =
     \<lparr>mph_len = 0, medium_type = 0, flags0 = 0, flags1 = 0, reserved = 0,
      block_descriptor_length = 0\<rparr>"

definition build_packet :: "page \<Rightarrow> int \<Rightarrow> packet" where
  "build_packet current new =
     (let p0 = current;
          p1 = p0\<lparr>code := code p0 AND (code current AND 0x7f)\<rparr>;
          p2 = p1\<lparr>wd21 := (wd21 p1)\<lparr>led := word_of_int new\<rparr>\<rparr>
      in \<lparr>header = zero_header, page = p2\<rparr>)"

definition packet_bytes :: "packet \<Rightarrow> byte list" where
  "packet_bytes k = header_bytes (header k) @ page_bytes (page k)"

definition packet_size :: nat where
  "packet_size = sizeof_header + 2 + sizeof_wd21"

text \<open>What \<^verbatim>\<open>sg_ll_mode_select10\<close> is given: the first \<open>packet_size\<close> bytes.\<close>

definition select_buffer :: "page \<Rightarrow> int \<Rightarrow> byte list" where
  "select_buffer current new = take packet_size (packet_bytes (build_packet current new))"

subsection \<open>The checks on the fetched pages\<close>

record pages =
  current :: page
  changeable :: page
  original :: page
  saved :: page

text \<open>
  Each error is one \<^verbatim>\<open>eprintf\<close> followed by \<^verbatim>\<open>return 1\<close>; the argument of a
  constructor is the value the message prints.
\<close>

datatype device_check = Vendor | Product

datatype error =
    Usage
  | InvalidRequestedValue string
  | OpenFailed int
  | InquiryFailed int
  | UnsupportedDevice device_check
  | FetchFailed int
  | UnexpectedPageId byte
  | UnexpectedPageLength byte
  | UnexpectedMagic byte
  | LedNotChangeable byte
  | SubmitFailed int

definition validate_pages :: "pages \<Rightarrow> error + unit" where
  "validate_pages ps =
     (let code0 = PAGE_CODE OR PS_BIT;
          wd21_len = (word_of_nat sizeof_wd21 :: byte)
      in if code (current ps) \<noteq> code0 \<or> code (changeable ps) \<noteq> code0
            \<or> code (original ps) \<noteq> code0 \<or> code (saved ps) \<noteq> code0
         then Inl (UnexpectedPageId (code (current ps)))
         else if len (current ps) \<noteq> wd21_len \<or> len (changeable ps) \<noteq> wd21_len
            \<or> len (original ps) \<noteq> wd21_len \<or> len (saved ps) \<noteq> wd21_len
         then Inl (UnexpectedPageLength (len (current ps)))
         else if magic (wd21 (current ps)) \<noteq> PAGE_MAGIC
         then Inl (UnexpectedMagic (magic (wd21 (current ps))))
         else if led (wd21 (changeable ps)) \<noteq> 0xff
         then Inl (LedNotChangeable (led (wd21 (changeable ps))))
         else Inr ())"

subsection \<open>The C library functions of the argument processing\<close>

text \<open>
  \<^verbatim>\<open>strcmp\<close> on two C strings is equality of strings; \<^verbatim>\<open>strncmp\<close> and
  \<^verbatim>\<open>strncasecmp\<close> compare the first \<open>n\<close> characters (a program argument holds no
  NUL). \<^verbatim>\<open>strtol\<close> follows the C standard, in the C locale, for base 0, with a 64-bit
  \<^verbatim>\<open>long\<close>: white space, an optional sign, \<^verbatim>\<open>0x\<close> for hexadecimal or a
  leading \<^verbatim>\<open>0\<close> for octal, the longest run of digits, and a value clamped to the
  range of \<^verbatim>\<open>long\<close>. It returns the value and the rest of the string
  (\<^verbatim>\<open>endptr\<close>); with no digits the value is 0 and the rest is the whole string.
\<close>

definition isspace_c :: "char \<Rightarrow> bool" where
  "isspace_c c = (c \<in> set [CHR '' '', CHR 0x09, CHR 0x0A, CHR 0x0B, CHR 0x0C, CHR 0x0D])"

definition tolower_c :: "char \<Rightarrow> char" where
  "tolower_c c =
     (case map_of (zip ''ABCDEFGHIJKLMNOPQRSTUVWXYZ'' ''abcdefghijklmnopqrstuvwxyz'') c of
        Some l \<Rightarrow> l
      | None \<Rightarrow> c)"

definition strncmp_eq :: "string \<Rightarrow> string \<Rightarrow> nat \<Rightarrow> bool" where
  "strncmp_eq a b n = (take n a = take n b)"

definition strncasecmp_eq :: "string \<Rightarrow> string \<Rightarrow> nat \<Rightarrow> bool" where
  "strncasecmp_eq a b n = (map tolower_c (take n a) = map tolower_c (take n b))"

definition digit_value :: "char \<Rightarrow> nat option" where
  "digit_value c =
     (let n = (of_char c :: nat)
      in if 48 \<le> n \<and> n \<le> 57 then Some (n - 48)
         else if 97 \<le> n \<and> n \<le> 122 then Some (n - 87)
         else if 65 \<le> n \<and> n \<le> 90 then Some (n - 55)
         else None)"

definition is_digit :: "nat \<Rightarrow> char \<Rightarrow> bool" where
  "is_digit base c = (case digit_value c of Some d \<Rightarrow> d < base | None \<Rightarrow> False)"

fun strtol_digits :: "nat \<Rightarrow> nat \<Rightarrow> string \<Rightarrow> nat \<times> string" where
  "strtol_digits base acc [] = (acc, [])"
| "strtol_digits base acc (c # cs) =
     (case digit_value c of
        Some d \<Rightarrow> if d < base then strtol_digits base (acc * base + d) cs else (acc, c # cs)
      | None \<Rightarrow> (acc, c # cs))"

definition strtol_sign :: "string \<Rightarrow> bool \<times> string" where
  "strtol_sign s =
     (case s of
        [] \<Rightarrow> (False, [])
      | c # cs \<Rightarrow> if c = CHR ''-'' then (True, cs)
                 else if c = CHR ''+'' then (False, cs) else (False, s))"

definition strtol_base0 :: "string \<Rightarrow> nat \<times> string" where
  "strtol_base0 s =
     (if take 1 s = ''0'' \<and> map tolower_c (take 1 (drop 1 s)) = ''x''
         \<and> (case drop 2 s of [] \<Rightarrow> False | c # _ \<Rightarrow> is_digit 16 c)
      then (16, drop 2 s)
      else if take 1 s = ''0'' then (8, s) else (10, s))"

definition LONG_MAX :: int where "LONG_MAX = 2 ^ 63 - 1"
definition LONG_MIN :: int where "LONG_MIN = - (2 ^ 63)"

definition strtol :: "string \<Rightarrow> int \<times> string" where
  "strtol nptr =
     (let s0 = dropWhile isspace_c nptr;
          (neg, s1) = strtol_sign s0;
          (base, s2) = strtol_base0 s1;
          (n, rest) = strtol_digits base 0 s2
      in if length rest = length s2 then (0, nptr)
         else (if neg then max LONG_MIN (- int n) else min LONG_MAX (int n), rest))"

text \<open>The conversion of a \<^verbatim>\<open>long\<close> to the 32-bit \<^verbatim>\<open>int new\<close>.\<close>

definition int_of_long :: "int \<Rightarrow> int" where
  "int_of_long v = sint (word_of_int v :: 32 word)"

text \<open>\<^verbatim>\<open>printf("%d")\<close> of a value that is not negative.\<close>

fun dec :: "nat \<Rightarrow> string" where
  "dec n = (if n < 10 then [''0123456789'' ! n] else dec (n div 10) @ [''0123456789'' ! (n mod 10)])"

declare dec.simps [simp del]

subsection \<open>Argument processing\<close>

text \<open>
  The result is \<open>(force, save, new)\<close>; \<open>new = -1\<close> when no value is requested.
  \<^verbatim>\<open>endptr != arg + strlen(arg)\<close> says that \<^verbatim>\<open>strtol\<close> left a rest.
\<close>

definition process_argument :: "string \<Rightarrow> error + bool \<times> bool \<times> int" where
  "process_argument arg0 =
     (if arg0 = ''FORCEGET'' then Inr (True, False, - 1)
      else
        let force_str = ''FORCESET:'';
            (arg1, force) =
               (if strncmp_eq arg0 force_str (length force_str)
                then (drop (length force_str) arg0, True) else (arg0, False));
            save_str = ''save:'';
            (arg, save) =
               (if strncasecmp_eq arg1 save_str (length save_str)
                then (drop (length save_str) arg1, True) else (arg1, False))
        in if arg = ''off'' then Inr (force, save, 0)
           else if arg = ''on'' then Inr (force, save, 255)
           else
             let (v, endptr) = strtol arg;
                 new = int_of_long v
             in if endptr \<noteq> [] \<or> new < 0x00 \<or> new > 0xff
                then Inl (InvalidRequestedValue arg)
                else Inr (force, save, new))"

subsection \<open>The device and the run\<close>

record inquiry_resp =
  vendor :: string
  product :: string
  revision :: string

text \<open>
  The library calls, as functions of their arguments: the file descriptor or negated
  errno of the open, the result and the response of the inquiry, the result and the four
  filled pages of the fetch, the result of the submission (file descriptor, page format,
  save pages, buffer).
\<close>

record env =
  sg_cmds_open_device :: "string \<Rightarrow> bool \<Rightarrow> int"
  sg_simple_inquiry :: "int \<Rightarrow> int \<times> inquiry_resp"
  sg_get_mode_page_controls :: "int \<Rightarrow> int \<times> pages"
  sg_ll_mode_select10 :: "int \<Rightarrow> bool \<Rightarrow> bool \<Rightarrow> byte list \<Rightarrow> int"

text \<open>
  A call in the trace carries its arguments and what it returned: the device, the
  read-only flag and the file descriptor; the file descriptor, the result and the
  response; the file descriptor, the result and the pages; the file descriptor, page
  format, save pages, the buffer and the result.
\<close>

datatype call =
    Open string bool int
  | Inquiry int int inquiry_resp
  | GetModePage int int pages
  | ModeSelect int bool bool "byte list" int

text \<open>The lines on the error stream that do not end the run.\<close>

datatype notice =
    SkippingChecks
  | Identity string string string string
  | SkippedVendorCheck
  | SkippedDeviceCheck

record world =
  calls :: "call list"
  stderr :: "notice list"
  stdout :: "string list"

definition exit_status :: "error + unit \<Rightarrow> int" where
  "exit_status r = (case r of Inl _ \<Rightarrow> 1 | Inr _ \<Rightarrow> 0)"

text \<open>The two search loops over the tables; an index equal to the length is the
  \<^verbatim>\<open>NULL\<close> entry.\<close>

fun find_product :: "string list \<Rightarrow> string \<Rightarrow> nat \<Rightarrow> nat" where
  "find_product [] p pid = pid"
| "find_product (x # xs) p pid = (if x = p then pid else find_product xs p (Suc pid))"

fun find_vendor :: "(string \<times> string list) list \<Rightarrow> inquiry_resp \<Rightarrow> nat \<Rightarrow> nat \<times> nat" where
  "find_vendor [] inquiry vid = (vid, 0)"
| "find_vendor ((v, ps) # rest) inquiry vid =
     (if v = vendor inquiry then (vid, find_product ps (product inquiry) 0)
      else find_vendor rest inquiry (Suc vid))"

definition check_supported :: "bool \<Rightarrow> inquiry_resp \<Rightarrow> error + notice list" where
  "check_supported force inquiry =
     (let (vid, pid) = find_vendor supported inquiry 0
      in if vid = length supported
         then (if \<not> force then Inl (UnsupportedDevice Vendor) else Inr [SkippedVendorCheck])
         else if pid = length (snd (supported ! vid))
         then (if \<not> force then Inl (UnsupportedDevice Product) else Inr [SkippedDeviceCheck])
         else Inr [])"

definition report_line :: "pages \<Rightarrow> string" where
  "report_line ps =
     ''LED: current='' @ dec (unat (led (wd21 (current ps))))
       @ '' original='' @ dec (unat (led (wd21 (original ps))))
       @ '' saved='' @ dec (unat (led (wd21 (saved ps))))"

definition write_back :: "env \<Rightarrow> int \<Rightarrow> bool \<Rightarrow> page \<Rightarrow> int \<Rightarrow> world \<Rightarrow> (error + unit) \<times> world" where
  "write_back e fd save cur new w =
     (let buf = select_buffer cur new;
          page_format = True;
          result = sg_ll_mode_select10 e fd page_format save buf;
          w' = w\<lparr>calls := calls w @ [ModeSelect fd page_format save buf result]\<rparr>
      in if result \<noteq> 0 then (Inl (SubmitFailed result), w') else (Inr (), w'))"

definition read_pages :: "env \<Rightarrow> int \<Rightarrow> bool \<Rightarrow> int \<Rightarrow> world \<Rightarrow> (error + unit) \<times> world" where
  "read_pages e fd save new w =
     (let (result, ps) = sg_get_mode_page_controls e fd;
          w1 = w\<lparr>calls := calls w @ [GetModePage fd result ps]\<rparr>
      in if result \<noteq> 0 then (Inl (FetchFailed result), w1)
         else case validate_pages ps of
                Inl err \<Rightarrow> (Inl err, w1)
              | Inr _ \<Rightarrow>
                  let w2 = w1\<lparr>stdout := stdout w1 @ [report_line ps]\<rparr>
                  in if new \<ge> 0 then write_back e fd save (current ps) new w2
                     else (Inr (), w2))"

definition run_device :: "env \<Rightarrow> string \<Rightarrow> bool \<Rightarrow> bool \<Rightarrow> int \<Rightarrow> (error + unit) \<times> world" where
  "run_device e device force save new =
     (let w0 = \<lparr>calls = [], stderr = (if force then [SkippingChecks] else []), stdout = []\<rparr>;
          read_only = (new < 0);
          fd = sg_cmds_open_device e device read_only;
          w1 = w0\<lparr>calls := calls w0 @ [Open device read_only fd]\<rparr>
      in if fd < 0 then (Inl (OpenFailed (- fd)), w1)
         else
           let (result, inquiry) = sg_simple_inquiry e fd;
               w2 = w1\<lparr>calls := calls w1 @ [Inquiry fd result inquiry]\<rparr>
           in if result \<noteq> 0 then (Inl (InquiryFailed result), w2)
              else
                let w3 = w2\<lparr>stderr := stderr w2 @
                           [Identity device (vendor inquiry) (product inquiry) (revision inquiry)]\<rparr>
                in case check_supported force inquiry of
                     Inl err \<Rightarrow> (Inl err, w3)
                   | Inr notes \<Rightarrow> read_pages e fd save new (w3\<lparr>stderr := stderr w3 @ notes\<rparr>))"

definition main :: "string list \<Rightarrow> env \<Rightarrow> (error + unit) \<times> world" where
  "main argv e =
     (let argc = length argv;
          silent = \<lparr>calls = [], stderr = [], stdout = []\<rparr>
      in if argc < 2 \<or> argc > 3 \<or> argv ! 1 = ''--help'' \<or> argv ! 1 = ''-help''
            \<or> argv ! 1 = ''-h''
         then (Inl Usage, silent)
         else case (if argc > 2 then process_argument (argv ! 2)
                    else Inr (False, False, - 1)) of
                Inl err \<Rightarrow> (Inl err, silent)
              | Inr (force, save, new) \<Rightarrow> run_device e (argv ! 1) force save new)"

subsection \<open>A disk to run the program on\<close>

text \<open>
  A page as a supported disk returns it, with a given LED byte; four of them; and a
  device that opens, identifies itself with a given vendor and product, returns the given
  pages and accepts the submission.
\<close>

definition genuine_page :: "byte \<Rightarrow> page" where
  "genuine_page l =
     \<lparr>code = 0xA1, len = 10,
      wd21 = \<lparr>magic = 0x30, zeros0 = 0, zeros1 = 0, unknown1 = 0, zeros2 = 0, zeros3 = 0,
              led = l, zeros4 = 0, zeros5 = 0, zeros6 = 0\<rparr>,
      pad = replicate 22 0\<rparr>"

definition genuine_pages :: pages where
  "genuine_pages =
     \<lparr>current = genuine_page 10, changeable = genuine_page 0xff,
      original = genuine_page 0, saved = genuine_page 10\<rparr>"

definition disk :: "string \<Rightarrow> string \<Rightarrow> pages \<Rightarrow> env" where
  "disk v p ps =
     \<lparr>sg_cmds_open_device = (\<lambda>device read_only. 3),
      sg_simple_inquiry = (\<lambda>fd. (0, \<lparr>vendor = v, product = p, revision = ''1012''\<rparr>)),
      sg_get_mode_page_controls = (\<lambda>fd. (0, ps)),
      sg_ll_mode_select10 = (\<lambda>fd page_format save buf. 0)\<rparr>"

definition my_passport :: "pages \<Rightarrow> env" where
  "my_passport ps = disk ''WD      '' ''My Passport 259F'' ps"

text \<open>
  The pages of a device whose fetch reports success and fills nothing in: the structs keep
  their initialiser \<^verbatim>\<open>{}\<close>.
\<close>

definition zero_page :: page where
  "zero_page =
     \<lparr>code = 0, len = 0,
      wd21 = \<lparr>magic = 0, zeros0 = 0, zeros1 = 0, unknown1 = 0, zeros2 = 0, zeros3 = 0,
              led = 0, zeros4 = 0, zeros5 = 0, zeros6 = 0\<rparr>,
      pad = replicate 22 0\<rparr>"

definition zero_pages :: pages where
  "zero_pages =
     \<lparr>current = zero_page, changeable = zero_page, original = zero_page, saved = zero_page\<rparr>"

text \<open>
  Genuine pages but for one field: a changeable mask with a zero LED byte; a magic byte
  0x31 in the current page; a changeable page that comes without the saveable bit.
\<close>

definition unchangeable_pages :: pages where
  "unchangeable_pages = genuine_pages\<lparr>changeable := genuine_page 0\<rparr>"

definition wrong_magic_pages :: pages where
  "wrong_magic_pages =
     genuine_pages\<lparr>current := (genuine_page 10)\<lparr>wd21 := (wd21 (genuine_page 10))\<lparr>magic := 0x31\<rparr>\<rparr>\<rparr>"

definition mixed_code_pages :: pages where
  "mixed_code_pages = genuine_pages\<lparr>changeable := (genuine_page 0xff)\<lparr>code := 0x21\<rparr>\<rparr>"

text \<open>A disk of another vendor.\<close>

definition other_disk :: "pages \<Rightarrow> env" where
  "other_disk ps = disk ''Acme    '' ''Disk'' ps"

definition wd_inquiry :: inquiry_resp where
  "wd_inquiry = \<lparr>vendor = ''WD      '', product = ''My Passport 259F'', revision = ''1012''\<rparr>"

definition other_inquiry :: inquiry_resp where
  "other_inquiry = \<lparr>vendor = ''Acme    '', product = ''Disk'', revision = ''1012''\<rparr>"

text \<open>
  The report line in the words of the specification, to compare with \<open>report_line\<close>:
  one line of the form \<^verbatim>\<open>current=<n> default=<n> saved=<n>\<close>.
\<close>

definition spec_report_line :: "pages \<Rightarrow> string" where
  "spec_report_line ps =
     ''current='' @ dec (unat (led (wd21 (current ps))))
       @ '' default='' @ dec (unat (led (wd21 (original ps))))
       @ '' saved='' @ dec (unat (led (wd21 (saved ps))))"

section \<open>Properties\<close>

subsection \<open>Bytes of the packet\<close>

lemmas packet_defs = select_buffer_def packet_size_def packet_bytes_def build_packet_def
  Let_def header_bytes_def zero_header_def u16_bytes_def page_bytes_def wd21_bytes_def
  sizeof_header_def sizeof_wd21_def

lemma select_buffer_eq:
  "select_buffer cur new =
     replicate 8 0 @ [code cur AND 0x7f, len cur]
       @ wd21_bytes ((wd21 cur)\<lparr>led := word_of_int new\<rparr>)"
  by (simp add: packet_defs numeral_eq_Suc)

lemma decode_select_buffer:
  "page_of_bytes (drop sizeof_header (select_buffer cur new)) =
     \<lparr>code = code cur AND 0x7f, len = len cur,
      wd21 = (wd21 cur)\<lparr>led := word_of_int new\<rparr>, pad = []\<rparr>"
  by (simp add: select_buffer_eq page_of_bytes_def byte_at_def sizeof_header_def
      wd21_bytes_def numeral_eq_Suc)

lemma length_select_buffer:
  "length (select_buffer cur new) = sizeof_header + 2 + sizeof_wd21"
  by (simp add: select_buffer_eq sizeof_header_def sizeof_wd21_def wd21_bytes_def)

text \<open>
  C1. Round trip of the write payload. For a requested value \<open>X\<close> in 0..255 and any
  current page, the bytes handed to the transport, read back as a page behind the
  header, have the LED byte \<open>X\<close> and the saveable bit (bit 7 of the code byte) clear;
  the low seven bits of the code byte, the length byte and every payload byte other than
  the LED byte are those of the current page. The header in front is the zero header, and
  byte for byte the transmitted page bytes other than the code and LED bytes are the bytes
  of the current page.
\<close>

theorem write_payload_roundtrip:
  assumes "0 \<le> X" and "X \<le> 255"
  shows "uint (led (wd21 (page_of_bytes (drop sizeof_header (select_buffer cur X))))) = X
    \<and> \<not> bit (code (page_of_bytes (drop sizeof_header (select_buffer cur X)))) 7
    \<and> code (page_of_bytes (drop sizeof_header (select_buffer cur X))) AND 0x7f
         = code cur AND 0x7f
    \<and> len (page_of_bytes (drop sizeof_header (select_buffer cur X))) = len cur
    \<and> wd21 (page_of_bytes (drop sizeof_header (select_buffer cur X)))
         = (wd21 cur)\<lparr>led := word_of_int X\<rparr>
    \<and> take sizeof_header (select_buffer cur X) = header_bytes zero_header
    \<and> (\<forall>i < 2 + sizeof_wd21. i \<noteq> 0 \<and> i \<noteq> 8 \<longrightarrow>
          select_buffer cur X ! (sizeof_header + i) = page_bytes cur ! i)"
proof -
  have u: "uint (word_of_int X :: byte) = X"
    using assms by (simp add: uint_word_of_int take_bit_int_eq_self)
  have m: "\<not> bit (code cur AND 0x7f) 7"
    by (simp add: bit_simps)
  have h: "take sizeof_header (select_buffer cur X) = header_bytes zero_header"
    by (simp add: select_buffer_eq sizeof_header_def header_bytes_def zero_header_def
        u16_bytes_def numeral_eq_Suc)
  have b: "\<forall>i < 2 + sizeof_wd21. i \<noteq> 0 \<and> i \<noteq> 8 \<longrightarrow>
          select_buffer cur X ! (sizeof_header + i) = page_bytes cur ! i"
    by (simp add: select_buffer_eq sizeof_header_def sizeof_wd21_def page_bytes_def
        wd21_bytes_def nth_append numeral_eq_Suc less_Suc_eq all_conj_distrib)
  show ?thesis
    unfolding decode_select_buffer using u m h b by (simp add: and.assoc)
qed

theorem write_payload_roundtrip_witness:
  "(0::int) \<le> 0 \<and> (0::int) \<le> 255
    \<and> uint (led (wd21 (page_of_bytes (drop sizeof_header
          (select_buffer (genuine_page 10) 0))))) = 0
    \<and> \<not> bit (code (page_of_bytes (drop sizeof_header
          (select_buffer (genuine_page 10) 0)))) 7
    \<and> magic (wd21 (page_of_bytes (drop sizeof_header
          (select_buffer (genuine_page 10) 0)))) = 0x30"
  using write_payload_roundtrip [of 0 "genuine_page 10"] by (simp add: genuine_page_def)

subsection \<open>The checks on the pages\<close>

lemma byte_A1I:
  fixes c :: byte
  assumes a: "c AND 0x7f = 0x21" and b: "bit c 7"
  shows "c = 0xA1"
proof -
  have "c = (c AND 0x7f) OR (c AND 0x80)"
    by (rule bit_word_eqI) (auto simp: bit_simps numeral_eq_Suc less_Suc_eq)
  moreover have "c AND 0x80 = 0x80"
    using b by - (rule bit_word_eqI, auto simp: bit_simps numeral_eq_Suc less_Suc_eq)
  ultimately show ?thesis using a by simp
qed

lemma byte_A1_iff: "(c::byte) = 0xA1 \<longleftrightarrow> c AND 0x7f = 0x21 \<and> bit c 7"
  using byte_A1I by (auto simp: bit_simps)

lemma expected_code: "PAGE_CODE OR PS_BIT = 0xA1"
  by (simp add: PAGE_CODE_def PS_BIT_def)

lemma expected_len: "(word_of_nat sizeof_wd21 :: byte) = 10"
  by (simp add: sizeof_wd21_def)

text \<open>The four checks with the constants written out.\<close>

lemma validate_pages_unfold:
  "validate_pages ps =
     (if code (current ps) \<noteq> 0xA1 \<or> code (changeable ps) \<noteq> 0xA1
            \<or> code (original ps) \<noteq> 0xA1 \<or> code (saved ps) \<noteq> 0xA1
         then Inl (UnexpectedPageId (code (current ps)))
         else if len (current ps) \<noteq> 10 \<or> len (changeable ps) \<noteq> 10
            \<or> len (original ps) \<noteq> 10 \<or> len (saved ps) \<noteq> 10
         then Inl (UnexpectedPageLength (len (current ps)))
         else if magic (wd21 (current ps)) \<noteq> 0x30
         then Inl (UnexpectedMagic (magic (wd21 (current ps))))
         else if led (wd21 (changeable ps)) \<noteq> 0xff
         then Inl (LedNotChangeable (led (wd21 (changeable ps))))
         else Inr ())"
  unfolding validate_pages_def Let_def expected_code expected_len PAGE_MAGIC_def ..

lemma validate_pages_errors:
  "validate_pages ps = Inl err \<Longrightarrow>
     err = UnexpectedPageId (code (current ps)) \<or> err = UnexpectedPageLength (len (current ps))
     \<or> err = UnexpectedMagic (magic (wd21 (current ps)))
     \<or> err = LedNotChangeable (led (wd21 (changeable ps)))"
  by (auto simp: validate_pages_unfold split: if_splits)

lemma validate_pages_led:
  "led (wd21 (changeable ps)) \<noteq> 0xff \<Longrightarrow> \<exists>err. validate_pages ps = Inl err"
  by (simp add: validate_pages_unfold)

lemma validate_genuine_pages: "validate_pages genuine_pages = Inr ()"
  by (simp add: validate_pages_unfold genuine_pages_def genuine_page_def)

lemma validate_zero_pages: "validate_pages zero_pages = Inl (UnexpectedPageId 0)"
  by (simp add: validate_pages_unfold zero_pages_def zero_page_def)

lemma validate_unchangeable_pages:
  "validate_pages unchangeable_pages = Inl (LedNotChangeable 0)"
  by (simp add: validate_pages_unfold unchangeable_pages_def genuine_pages_def genuine_page_def)

text \<open>
  C3. The page-id rule. The checks end with the unexpected-page-id error exactly when
  some one of the four pages has a code byte whose low seven bits are not the page code
  0x21 or whose saveable bit (bit 7) is clear; and they do not end with it exactly when
  all four code bytes are 0xA1.
\<close>

theorem page_id_rule:
  "((\<exists>b. validate_pages ps = Inl (UnexpectedPageId b)) \<longleftrightarrow>
      (\<exists>p \<in> {current ps, changeable ps, original ps, saved ps}.
          code p AND 0x7f \<noteq> PAGE_CODE \<or> \<not> bit (code p) 7))
   \<and> ((\<forall>b. validate_pages ps \<noteq> Inl (UnexpectedPageId b)) \<longleftrightarrow>
      code (current ps) = 0xA1 \<and> code (changeable ps) = 0xA1
        \<and> code (original ps) = 0xA1 \<and> code (saved ps) = 0xA1)"
  by (auto simp: validate_pages_unfold byte_A1_iff PAGE_CODE_def)

theorem page_id_rule_witness:
  "saved zero_pages \<in> {current zero_pages, changeable zero_pages, original zero_pages,
      saved zero_pages}
   \<and> \<not> bit (code (saved zero_pages)) 7
   \<and> (\<exists>b. validate_pages zero_pages = Inl (UnexpectedPageId b))"
  using page_id_rule [of zero_pages]
  by (simp add: zero_pages_def zero_page_def PAGE_CODE_def)

text \<open>
  C7, as the code has it. When the magic byte of the current page is not 0x30 the checks
  fail, whatever the other fields are; the error is the unexpected magic, with the magic
  byte, when all four code bytes are 0xA1 and all four length bytes are 10, and otherwise
  the error of the page-id rule or of the length rule, which come first.
\<close>

theorem magic_rule:
  assumes "magic (wd21 (current ps)) \<noteq> 0x30"
  shows "validate_pages ps =
     (if code (current ps) \<noteq> 0xA1 \<or> code (changeable ps) \<noteq> 0xA1
         \<or> code (original ps) \<noteq> 0xA1 \<or> code (saved ps) \<noteq> 0xA1
      then Inl (UnexpectedPageId (code (current ps)))
      else if len (current ps) \<noteq> 10 \<or> len (changeable ps) \<noteq> 10
         \<or> len (original ps) \<noteq> 10 \<or> len (saved ps) \<noteq> 10
      then Inl (UnexpectedPageLength (len (current ps)))
      else Inl (UnexpectedMagic (magic (wd21 (current ps)))))"
  using assms by (simp add: validate_pages_unfold)

theorem magic_rule_witness:
  "magic (wd21 (current wrong_magic_pages)) \<noteq> 0x30
   \<and> validate_pages wrong_magic_pages = Inl (UnexpectedMagic 0x31)"
  using magic_rule [of wrong_magic_pages]
  by (simp add: wrong_magic_pages_def genuine_pages_def genuine_page_def)

text \<open>
  The statement with the unexpected magic in every case fails on the pages of all zero
  bytes: the magic byte is 0, not 0x30, and the error is the unexpected page id.
\<close>

theorem magic_rule_counterexample:
  "magic (wd21 (current zero_pages)) \<noteq> 0x30
   \<and> validate_pages zero_pages = Inl (UnexpectedPageId 0)
   \<and> validate_pages zero_pages \<noteq> Inl (UnexpectedMagic (magic (wd21 (current zero_pages))))"
  by (simp add: validate_pages_unfold zero_pages_def zero_page_def)

text \<open>
  C8. The checks run in the order page id, length, magic, LED changeable, and the first
  that fails ends them (\<open>validate_pages_unfold\<close>). The byte in the report of the page-id
  rule is the code byte of the current page, also when the current page is the expected
  0xA1 and another page broke the rule: with a changeable page of code 0x21 among genuine
  pages, the message shows 0xA1 and not 0x21.
\<close>

theorem page_id_diagnostic:
  "code (current mixed_code_pages) = 0xA1
   \<and> code (changeable mixed_code_pages) = 0x21
   \<and> code (original mixed_code_pages) = 0xA1
   \<and> code (saved mixed_code_pages) = 0xA1
   \<and> validate_pages mixed_code_pages = Inl (UnexpectedPageId 0xA1)"
  by (simp add: validate_pages_unfold mixed_code_pages_def genuine_pages_def genuine_page_def)

theorem page_id_diagnostic_witness:
  "validate_pages mixed_code_pages
     \<noteq> Inl (UnexpectedPageId (code (changeable mixed_code_pages)))"
  using page_id_diagnostic by simp

subsection \<open>Argument processing\<close>

lemmas arg_defs = process_argument_def strncmp_eq_def strncasecmp_eq_def tolower_c_def
  strtol_def strtol_sign_def strtol_base0_def int_of_long_def Let_def isspace_c_def
  digit_value_def LONG_MAX_def LONG_MIN_def is_digit_def

lemma process_argument_new:
  assumes "process_argument arg = Inr (force, save, new)"
  shows "(new < 0 \<longleftrightarrow> arg = ''FORCEGET'') \<and> (arg = ''FORCEGET'' \<longrightarrow> new = - 1 \<and> force)
    \<and> new \<le> 255"
  using assms
  by (auto simp: process_argument_def Let_def split: if_splits prod.splits)

lemma process_argument_force:
  assumes "process_argument arg = Inr (force, save, new)"
  shows "force \<longleftrightarrow> arg = ''FORCEGET'' \<or> take 9 arg = ''FORCESET:''"
  using assms
  by (auto simp: process_argument_def strncmp_eq_def Let_def eval_nat_numeral
      split: if_splits prod.splits)

lemma process_argument_off_on:
  "process_argument ''off'' = Inr (False, False, 0)"
  "process_argument ''on'' = Inr (False, False, 255)"
  "process_argument ''save:off'' = Inr (False, True, 0)"
  "process_argument ''FORCESET:on'' = Inr (True, False, 255)"
  by (simp_all add: arg_defs)

lemma process_argument_numbers:
  "process_argument ''0'' = Inr (False, False, 0)"
  "process_argument ''255'' = Inr (False, False, 255)"
  "process_argument ''0xff'' = Inr (False, False, 255)"
  "process_argument ''256'' = Inl (InvalidRequestedValue ''256'')"
  "process_argument ''-1'' = Inl (InvalidRequestedValue ''-1'')"
  "process_argument ''bright'' = Inl (InvalidRequestedValue ''bright'')"
  by (simp_all add: arg_defs)

text \<open>
  On a 64-bit \<^verbatim>\<open>long\<close> the value 2^32 passes the range check: the conversion to
  \<^verbatim>\<open>int\<close> leaves 0.
\<close>

lemma process_argument_wraps:
  "process_argument ''4294967296'' = Inr (False, False, 0)"
  by (simp add: arg_defs)

subsection \<open>The run, stage by stage\<close>

lemma write_back_calls:
  "calls (snd (write_back e fd save cur new w)) =
     calls w @ [ModeSelect fd True save (select_buffer cur new)
                  (sg_ll_mode_select10 e fd True save (select_buffer cur new))]"
  "stdout (snd (write_back e fd save cur new w)) = stdout w"
  "stderr (snd (write_back e fd save cur new w)) = stderr w"
  by (simp_all add: write_back_def Let_def)

lemma write_back_result:
  "fst (write_back e fd save cur new w) =
     (if sg_ll_mode_select10 e fd True save (select_buffer cur new) \<noteq> 0
      then Inl (SubmitFailed (sg_ll_mode_select10 e fd True save (select_buffer cur new)))
      else Inr ())"
  by (simp add: write_back_def Let_def)

lemma read_pages_calls:
  "calls (snd (read_pages e fd save new w)) =
     calls w @ GetModePage fd (fst (sg_get_mode_page_controls e fd))
                 (snd (sg_get_mode_page_controls e fd))
       # (if fst (sg_get_mode_page_controls e fd) = 0
             \<and> validate_pages (snd (sg_get_mode_page_controls e fd)) = Inr () \<and> new \<ge> 0
          then [ModeSelect fd True save
                  (select_buffer (current (snd (sg_get_mode_page_controls e fd))) new)
                  (sg_ll_mode_select10 e fd True save
                     (select_buffer (current (snd (sg_get_mode_page_controls e fd))) new))]
          else [])"
  by (auto simp: read_pages_def Let_def write_back_calls split: prod.splits sum.splits)

lemma read_pages_result:
  "fst (read_pages e fd save new w) =
     (let r = fst (sg_get_mode_page_controls e fd); ps = snd (sg_get_mode_page_controls e fd);
          r' = sg_ll_mode_select10 e fd True save (select_buffer (current ps) new)
      in if r \<noteq> 0 then Inl (FetchFailed r)
         else if (\<exists>err. validate_pages ps = Inl err) then validate_pages ps
         else if new \<ge> 0 \<and> r' \<noteq> 0 then Inl (SubmitFailed r')
         else Inr ())"
  by (auto simp: read_pages_def Let_def write_back_result split: prod.splits sum.splits)

lemma read_pages_stdout:
  "stdout (snd (read_pages e fd save new w)) =
     stdout w @ (if fst (sg_get_mode_page_controls e fd) = 0
             \<and> validate_pages (snd (sg_get_mode_page_controls e fd)) = Inr ()
            then [report_line (snd (sg_get_mode_page_controls e fd))] else [])"
  by (auto simp: read_pages_def Let_def write_back_calls split: prod.splits sum.splits)

lemma read_pages_stderr:
  "stderr (snd (read_pages e fd save new w)) = stderr w"
  by (auto simp: read_pages_def Let_def write_back_calls split: prod.splits sum.splits)

lemma check_supported_force:
  "check_supported True inq =
     Inr (if vendor inq \<noteq> ''WD      '' then [SkippedVendorCheck]
          else if product inq \<notin> set wd_products then [SkippedDeviceCheck] else [])"
  by (simp add: check_supported_def supported_def wd_products_def Let_def)

lemma check_supported_strict:
  "check_supported False inq =
     (if vendor inq \<noteq> ''WD      '' then Inl (UnsupportedDevice Vendor)
      else if product inq \<notin> set wd_products then Inl (UnsupportedDevice Product)
      else Inr [])"
  by (simp add: check_supported_def supported_def wd_products_def Let_def)

lemma check_supported_errors:
  "check_supported force inq = Inl err \<Longrightarrow>
     err = UnsupportedDevice Vendor \<or> err = UnsupportedDevice Product"
  by (auto simp: check_supported_def Let_def split: if_splits prod.splits)

lemma run_device_calls:
  "calls (snd (run_device e dev force save new)) =
    (let fd = sg_cmds_open_device e dev (new < 0);
         r = fst (sg_simple_inquiry e fd); inq = snd (sg_simple_inquiry e fd);
         r' = fst (sg_get_mode_page_controls e fd); ps = snd (sg_get_mode_page_controls e fd)
     in Open dev (new < 0) fd #
        (if fd < 0 then []
         else Inquiry fd r inq #
           (if r \<noteq> 0 \<or> (\<exists>err. check_supported force inq = Inl err) then []
            else GetModePage fd r' ps #
                   (if r' = 0 \<and> validate_pages ps = Inr () \<and> new \<ge> 0
                    then [ModeSelect fd True save (select_buffer (current ps) new)
                            (sg_ll_mode_select10 e fd True save
                               (select_buffer (current ps) new))]
                    else []))))"
proof -
  obtain r inq where i: "sg_simple_inquiry e (sg_cmds_open_device e dev (new < 0)) = (r, inq)"
    by fastforce
  show ?thesis
    by (cases "check_supported force inq")
      (simp_all add: run_device_def Let_def read_pages_calls i)
qed

lemma run_device_result:
  "fst (run_device e dev force save new) =
    (let fd = sg_cmds_open_device e dev (new < 0);
         r = fst (sg_simple_inquiry e fd); inq = snd (sg_simple_inquiry e fd);
         r' = fst (sg_get_mode_page_controls e fd); ps = snd (sg_get_mode_page_controls e fd);
         r'' = sg_ll_mode_select10 e fd True save (select_buffer (current ps) new)
     in if fd < 0 then Inl (OpenFailed (- fd))
        else if r \<noteq> 0 then Inl (InquiryFailed r)
        else if (\<exists>err. check_supported force inq = Inl err)
        then Inl (projl (check_supported force inq))
        else if r' \<noteq> 0 then Inl (FetchFailed r')
        else if (\<exists>err. validate_pages ps = Inl err) then validate_pages ps
        else if new \<ge> 0 \<and> r'' \<noteq> 0 then Inl (SubmitFailed r'')
        else Inr ())"
proof -
  obtain r inq where i: "sg_simple_inquiry e (sg_cmds_open_device e dev (new < 0)) = (r, inq)"
    by fastforce
  show ?thesis
    by (cases "check_supported force inq")
      (simp_all add: run_device_def Let_def read_pages_result i)
qed

lemma run_device_stdout:
  "stdout (snd (run_device e dev force save new)) =
    (let fd = sg_cmds_open_device e dev (new < 0);
         r = fst (sg_simple_inquiry e fd); inq = snd (sg_simple_inquiry e fd);
         r' = fst (sg_get_mode_page_controls e fd); ps = snd (sg_get_mode_page_controls e fd)
     in if 0 \<le> fd \<and> r = 0 \<and> (\<exists>ns. check_supported force inq = Inr ns) \<and> r' = 0
           \<and> validate_pages ps = Inr ()
        then [report_line ps] else [])"
proof -
  obtain r inq where i: "sg_simple_inquiry e (sg_cmds_open_device e dev (new < 0)) = (r, inq)"
    by fastforce
  show ?thesis
    by (cases "check_supported force inq")
      (simp_all add: run_device_def Let_def read_pages_stdout i)
qed

lemma run_device_stderr:
  "stderr (snd (run_device e dev force save new)) =
    (let fd = sg_cmds_open_device e dev (new < 0);
         r = fst (sg_simple_inquiry e fd); inq = snd (sg_simple_inquiry e fd)
     in (if force then [SkippingChecks] else []) @
        (if fd < 0 \<or> r \<noteq> 0 then []
         else Identity dev (vendor inq) (product inq) (revision inq) #
              (if (\<exists>err. check_supported force inq = Inl err) then []
               else projr (check_supported force inq))))"
proof -
  obtain r inq where i: "sg_simple_inquiry e (sg_cmds_open_device e dev (new < 0)) = (r, inq)"
    by fastforce
  show ?thesis
    by (cases "check_supported force inq")
      (simp_all add: run_device_def Let_def read_pages_stderr i)
qed

lemma run_device_forced_result:
  "fst (run_device e dev True save new) =
    (let fd = sg_cmds_open_device e dev (new < 0);
         r = fst (sg_simple_inquiry e fd);
         r' = fst (sg_get_mode_page_controls e fd); ps = snd (sg_get_mode_page_controls e fd);
         r'' = sg_ll_mode_select10 e fd True save (select_buffer (current ps) new)
     in if fd < 0 then Inl (OpenFailed (- fd))
        else if r \<noteq> 0 then Inl (InquiryFailed r)
        else if r' \<noteq> 0 then Inl (FetchFailed r')
        else if (\<exists>err. validate_pages ps = Inl err) then validate_pages ps
        else if new \<ge> 0 \<and> r'' \<noteq> 0 then Inl (SubmitFailed r'')
        else Inr ())"
  by (simp add: run_device_result check_supported_force Let_def)

lemma run_device_fetched:
  assumes "GetModePage fd r' ps \<in> set (calls (snd (run_device e dev force save new)))"
  shows "sg_cmds_open_device e dev (new < 0) = fd \<and> 0 \<le> fd
    \<and> fst (sg_simple_inquiry e fd) = 0
    \<and> (\<forall>err. check_supported force (snd (sg_simple_inquiry e fd)) \<noteq> Inl err)
    \<and> fst (sg_get_mode_page_controls e fd) = r'
    \<and> snd (sg_get_mode_page_controls e fd) = ps"
  using assms by (auto simp: run_device_calls Let_def split: if_splits)

lemma run_device_select:
  assumes "ModeSelect fd pf sp buf r \<in> set (calls (snd (run_device e dev force save new)))"
  shows "new \<ge> 0
    \<and> validate_pages (snd (sg_get_mode_page_controls e fd)) = Inr ()
    \<and> buf = select_buffer (current (snd (sg_get_mode_page_controls e fd))) new
    \<and> pf \<and> sp = save
    \<and> GetModePage fd 0 (snd (sg_get_mode_page_controls e fd))
         \<in> set (calls (snd (run_device e dev force save new)))"
  using assms by (auto simp: run_device_calls Let_def split: if_splits)

lemma run_device_not_argument_error:
  "fst (run_device e dev force save new) \<noteq> Inl Usage
   \<and> fst (run_device e dev force save new) \<noteq> Inl (InvalidRequestedValue a)"
proof -
  let ?fd = "sg_cmds_open_device e dev (new < 0)"
  have 1: "check_supported force (snd (sg_simple_inquiry e ?fd)) = Inl err
      \<Longrightarrow> err \<noteq> Usage \<and> err \<noteq> InvalidRequestedValue a" for err
    using check_supported_errors by fastforce
  have 2: "validate_pages (snd (sg_get_mode_page_controls e ?fd)) = Inl err
      \<Longrightarrow> err \<noteq> Usage \<and> err \<noteq> InvalidRequestedValue a" for err
    using validate_pages_errors by fastforce
  show ?thesis using 1 2
    by (auto simp: run_device_result Let_def)
qed

text \<open>
  The three ways through \<open>main\<close>: the help text, a value that is refused, and a run on
  the device. No device call is made on the first two.
\<close>

lemma main_cases:
  obtains (usage) "main argv e = (Inl Usage, \<lparr>calls = [], stderr = [], stdout = []\<rparr>)"
  | (invalid) arg where
      "main argv e = (Inl (InvalidRequestedValue arg), \<lparr>calls = [], stderr = [], stdout = []\<rparr>)"
      and "length argv = 3" and "argv ! 2 \<noteq> ''FORCEGET''"
  | (run) force save new where "main argv e = run_device e (argv ! 1) force save new"
      and "new < 0 \<longleftrightarrow> length argv = 2 \<or> argv ! 2 = ''FORCEGET''"
      and "length argv = 2 \<or> length argv = 3"
      and "length argv = 2 \<longrightarrow> \<not> force"
      and "length argv = 3 \<longrightarrow> process_argument (argv ! 2) = Inr (force, save, new)"
proof (cases "length argv < 2 \<or> length argv > 3 \<or> argv ! 1 = ''--help''
    \<or> argv ! 1 = ''-help'' \<or> argv ! 1 = ''-h''")
  case True
  then have "main argv e = (Inl Usage, \<lparr>calls = [], stderr = [], stdout = []\<rparr>)"
    by (simp add: main_def Let_def)
  then show ?thesis by (rule usage)
next
  case nohelp: False
  then have len: "length argv = 2 \<or> length argv = 3" by arith
  show ?thesis
  proof (cases "length argv > 2")
    case False
    with len have l2: "length argv = 2" by simp
    with nohelp have "main argv e = run_device e (argv ! 1) False False (- 1)"
      by (simp add: main_def Let_def)
    then show ?thesis using l2 by (intro run[of False False "- 1"]) auto
  next
    case True
    with len have l3: "length argv = 3" by simp
    show ?thesis
    proof (cases "process_argument (argv ! 2)")
      case (Inl err)
      then obtain arg where "err = InvalidRequestedValue arg" and "argv ! 2 \<noteq> ''FORCEGET''"
        by (auto simp: process_argument_def Let_def split: if_splits prod.splits)
      with Inl l3 nohelp show ?thesis
        by (intro invalid[of arg]) (auto simp: main_def Let_def)
    next
      case (Inr t)
      obtain force save new where t: "t = (force, save, new)" by (cases t) auto
      from Inr t process_argument_new[of "argv ! 2" force save new]
      have n: "new < 0 \<longleftrightarrow> argv ! 2 = ''FORCEGET''" by simp
      from Inr t l3 nohelp
      have "main argv e = run_device e (argv ! 1) force save new"
        by (simp add: main_def Let_def)
      then show ?thesis using n l3 Inr t by (intro run[of force save new]) auto
    qed
  qed
qed

subsection \<open>Runs on the example disks\<close>

lemmas run_defs = main_def run_device_def read_pages_def write_back_def check_supported_def
  supported_def wd_products_def

lemma run_query:
  "main [''wdled'', ''/dev/sdb''] (my_passport genuine_pages) =
     (Inr (),
      \<lparr>calls = [Open ''/dev/sdb'' True 3, Inquiry 3 0 wd_inquiry, GetModePage 3 0 genuine_pages],
       stderr = [Identity ''/dev/sdb'' ''WD      '' ''My Passport 259F'' ''1012''],
       stdout = [''LED: current=10 original=0 saved=10'']\<rparr>)"
  by (simp add: run_defs my_passport_def disk_def validate_genuine_pages wd_inquiry_def
      report_line_def)
    (simp add: genuine_pages_def genuine_page_def dec.simps)

lemma run_save_off:
  "main [''wdled'', ''/dev/sdb'', ''save:off''] (my_passport genuine_pages) =
     (Inr (),
      \<lparr>calls = [Open ''/dev/sdb'' False 3, Inquiry 3 0 wd_inquiry, GetModePage 3 0 genuine_pages,
                ModeSelect 3 True True (select_buffer (current genuine_pages) 0) 0],
       stderr = [Identity ''/dev/sdb'' ''WD      '' ''My Passport 259F'' ''1012''],
       stdout = [report_line genuine_pages]\<rparr>)"
  by (simp add: run_defs process_argument_off_on my_passport_def disk_def
      validate_genuine_pages wd_inquiry_def)

lemma run_off_zero:
  "main [''wdled'', ''/dev/sdb'', ''off''] (my_passport zero_pages) =
     (Inl (UnexpectedPageId 0),
      \<lparr>calls = [Open ''/dev/sdb'' False 3, Inquiry 3 0 wd_inquiry, GetModePage 3 0 zero_pages],
       stderr = [Identity ''/dev/sdb'' ''WD      '' ''My Passport 259F'' ''1012''],
       stdout = []\<rparr>)"
  by (simp add: run_defs process_argument_off_on my_passport_def disk_def
      validate_zero_pages wd_inquiry_def)

lemma run_off_unchangeable:
  "main [''wdled'', ''/dev/sdb'', ''off''] (my_passport unchangeable_pages) =
     (Inl (LedNotChangeable 0),
      \<lparr>calls = [Open ''/dev/sdb'' False 3, Inquiry 3 0 wd_inquiry,
                GetModePage 3 0 unchangeable_pages],
       stderr = [Identity ''/dev/sdb'' ''WD      '' ''My Passport 259F'' ''1012''],
       stdout = []\<rparr>)"
  by (simp add: run_defs process_argument_off_on my_passport_def disk_def
      validate_unchangeable_pages wd_inquiry_def)

lemma run_forced_other:
  "main [''wdled'', ''/dev/sdb'', ''FORCESET:on''] (other_disk zero_pages) =
     (Inl (UnexpectedPageId 0),
      \<lparr>calls = [Open ''/dev/sdb'' False 3, Inquiry 3 0 other_inquiry,
                GetModePage 3 0 zero_pages],
       stderr = [SkippingChecks, Identity ''/dev/sdb'' ''Acme    '' ''Disk'' ''1012'',
                 SkippedVendorCheck],
       stdout = []\<rparr>)"
  by (simp add: run_defs process_argument_off_on other_disk_def disk_def
      validate_zero_pages other_inquiry_def)

subsection \<open>The write\<close>

text \<open>
  C2. Size of the write buffer. For every current page and requested value the buffer
  handed to the mode-select submission has the size of the mode parameter header plus 2
  (the code and length bytes) plus the 10 bytes of the vendor payload, 20 bytes in all; it
  is the zero header, the two page header bytes and the ten payload bytes, and the bytes
  of the in-memory page behind the payload are no part of it: changing them changes
  nothing. Every submission a run makes hands over such a buffer, built from the current
  page that the run fetched.
\<close>

theorem select_buffer_size:
  "length (select_buffer cur new) = sizeof_header + 2 + sizeof_wd21
   \<and> sizeof_header + 2 + sizeof_wd21 = 20
   \<and> select_buffer (cur\<lparr>pad := q\<rparr>) new = select_buffer cur new
   \<and> select_buffer cur new =
       header_bytes zero_header @ [code cur AND 0x7f, len cur]
         @ wd21_bytes ((wd21 cur)\<lparr>led := word_of_int new\<rparr>)
   \<and> (\<forall>fd pf sp buf r. ModeSelect fd pf sp buf r \<in> set (calls (snd (main argv e)))
        \<longrightarrow> length buf = sizeof_header + 2 + sizeof_wd21
          \<and> (\<exists>ps n. GetModePage fd 0 ps \<in> set (calls (snd (main argv e)))
                \<and> buf = select_buffer (current ps) n))"
proof -
  have a: "length (select_buffer cur new) = sizeof_header + 2 + sizeof_wd21
   \<and> sizeof_header + 2 + sizeof_wd21 = 20
   \<and> select_buffer (cur\<lparr>pad := q\<rparr>) new = select_buffer cur new
   \<and> select_buffer cur new =
       header_bytes zero_header @ [code cur AND 0x7f, len cur]
         @ wd21_bytes ((wd21 cur)\<lparr>led := word_of_int new\<rparr>)"
    by (simp add: select_buffer_eq sizeof_header_def sizeof_wd21_def wd21_bytes_def
        header_bytes_def zero_header_def u16_bytes_def numeral_eq_Suc)
  have b: "length buf = sizeof_header + 2 + sizeof_wd21
          \<and> (\<exists>ps n. GetModePage fd 0 ps \<in> set (calls (snd (main argv e)))
                \<and> buf = select_buffer (current ps) n)"
    if s: "ModeSelect fd pf sp buf r \<in> set (calls (snd (main argv e)))" for fd pf sp buf r
  proof (cases argv e rule: main_cases)
    case usage
    with s show ?thesis by simp
  next
    case (invalid arg)
    with s show ?thesis by simp
  next
    case (run force save n)
    from s run(1)
    have "ModeSelect fd pf sp buf r \<in> set (calls (snd (run_device e (argv ! 1) force save n)))"
      by simp
    from run_device_select [OF this] show ?thesis
      unfolding run(1) by (auto simp: length_select_buffer)
  qed
  from a b show ?thesis by blast
qed

theorem select_buffer_size_witness:
  "ModeSelect 3 True True (select_buffer (current genuine_pages) 0) 0
     \<in> set (calls (snd (main [''wdled'', ''/dev/sdb'', ''save:off'']
          (my_passport genuine_pages))))
   \<and> length (select_buffer (current genuine_pages) 0) = 20"
proof -
  let ?run = "main [''wdled'', ''/dev/sdb'', ''save:off''] (my_passport genuine_pages)"
  let ?buf = "select_buffer (current genuine_pages) 0"
  have m: "ModeSelect 3 True True ?buf 0 \<in> set (calls (snd ?run))"
    unfolding run_save_off by simp
  note t = select_buffer_size [of "current genuine_pages" 0 "[]"
      "[''wdled'', ''/dev/sdb'', ''save:off'']" "my_passport genuine_pages"]
  from t have s: "sizeof_header + 2 + sizeof_wd21 = 20"
    by blast
  from t have "\<forall>fd pf sp buf r. ModeSelect fd pf sp buf r \<in> set (calls (snd ?run))
        \<longrightarrow> length buf = sizeof_header + 2 + sizeof_wd21
          \<and> (\<exists>ps n. GetModePage fd 0 ps \<in> set (calls (snd ?run))
                \<and> buf = select_buffer (current ps) n)"
    by blast
  with m have "length ?buf = sizeof_header + 2 + sizeof_wd21"
    by blast
  with m s show ?thesis by simp
qed

subsection \<open>A LED byte that is not changeable\<close>

text \<open>
  C4, as the code has it. When a run has fetched four pages of which the changeable one
  has a LED byte other than 0xFF, the run ends with the error of the first check that
  fails and with exit status 1: that is the LED-not-changeable error, with the byte of the
  mask, when the page-id, length and magic checks pass, and the error of one of those
  three otherwise. In every case no submission is made, whatever value was requested.
\<close>

theorem led_not_changeable_no_write:
  assumes f: "GetModePage fd 0 ps \<in> set (calls (snd (main argv e)))"
    and l: "led (wd21 (changeable ps)) \<noteq> 0xff"
  shows "fst (main argv e) = validate_pages ps
    \<and> (\<exists>err. validate_pages ps = Inl err)
    \<and> exit_status (fst (main argv e)) = 1
    \<and> (code (current ps) = 0xA1 \<and> code (changeable ps) = 0xA1 \<and> code (original ps) = 0xA1
         \<and> code (saved ps) = 0xA1 \<and> len (current ps) = 10 \<and> len (changeable ps) = 10
         \<and> len (original ps) = 10 \<and> len (saved ps) = 10 \<and> magic (wd21 (current ps)) = 0x30
        \<longrightarrow> fst (main argv e) = Inl (LedNotChangeable (led (wd21 (changeable ps)))))
    \<and> (\<forall>fd' pf sp buf r. ModeSelect fd' pf sp buf r \<notin> set (calls (snd (main argv e))))"
proof (cases argv e rule: main_cases)
  case usage
  with f show ?thesis by simp
next
  case (invalid arg)
  with f show ?thesis by simp
next
  case (run force save new)
  from l obtain err where v: "validate_pages ps = Inl err"
    using validate_pages_led by blast
  from f run(1)
  have g: "GetModePage fd 0 ps \<in> set (calls (snd (run_device e (argv ! 1) force save new)))"
    by simp
  note h = run_device_fetched [OF g]
  have res: "fst (main argv e) = validate_pages ps"
    using h v by (simp add: run(1) run_device_result Let_def)
  have nosel: "\<forall>fd' pf sp buf r. ModeSelect fd' pf sp buf r \<notin> set (calls (snd (main argv e)))"
    using h v by (auto simp: run(1) run_device_calls Let_def)
  have lnc: "code (current ps) = 0xA1 \<and> code (changeable ps) = 0xA1
         \<and> code (original ps) = 0xA1
         \<and> code (saved ps) = 0xA1 \<and> len (current ps) = 10 \<and> len (changeable ps) = 10
         \<and> len (original ps) = 10 \<and> len (saved ps) = 10 \<and> magic (wd21 (current ps)) = 0x30
        \<longrightarrow> validate_pages ps = Inl (LedNotChangeable (led (wd21 (changeable ps))))"
    using l by (simp add: validate_pages_unfold)
  show ?thesis using res v nosel lnc by (simp add: exit_status_def)
qed

theorem led_not_changeable_no_write_witness:
  "GetModePage 3 0 unchangeable_pages
     \<in> set (calls (snd (main [''wdled'', ''/dev/sdb'', ''off'']
          (my_passport unchangeable_pages))))
   \<and> led (wd21 (changeable unchangeable_pages)) \<noteq> 0xff
   \<and> fst (main [''wdled'', ''/dev/sdb'', ''off''] (my_passport unchangeable_pages))
       = Inl (LedNotChangeable 0)
   \<and> ModeSelect 3 True False (select_buffer (current unchangeable_pages) 0) 0
       \<notin> set (calls (snd (main [''wdled'', ''/dev/sdb'', ''off'']
          (my_passport unchangeable_pages))))"
  using led_not_changeable_no_write [of 3 unchangeable_pages
      "[''wdled'', ''/dev/sdb'', ''off'']" "my_passport unchangeable_pages"]
  unfolding run_off_unchangeable
  by (simp add: unchangeable_pages_def genuine_pages_def genuine_page_def)

text \<open>
  The statement with the LED-not-changeable error in every case fails on the pages of all
  zero bytes: the LED byte of the mask is 0, not 0xFF, and the run ends with the
  unexpected page id.
\<close>

theorem led_not_changeable_counterexample:
  "GetModePage 3 0 zero_pages
     \<in> set (calls (snd (main [''wdled'', ''/dev/sdb'', ''off''] (my_passport zero_pages))))
   \<and> led (wd21 (changeable zero_pages)) \<noteq> 0xff
   \<and> fst (main [''wdled'', ''/dev/sdb'', ''off''] (my_passport zero_pages))
       = Inl (UnexpectedPageId 0)
   \<and> fst (main [''wdled'', ''/dev/sdb'', ''off''] (my_passport zero_pages))
       \<noteq> Inl (LedNotChangeable (led (wd21 (changeable zero_pages))))"
  unfolding run_off_zero by (simp add: zero_pages_def zero_page_def)

subsection \<open>The requested value\<close>

text \<open>
  C5. The words \<^verbatim>\<open>off\<close> and \<^verbatim>\<open>on\<close> give 0 and 255, a number in 0..255 gives
  its value, and a refused value ends the run before any device call
  (\<open>process_argument_off_on\<close>, \<open>process_argument_numbers\<close>, \<open>main_cases\<close>). But the
  empty string, which is what is left of \<^verbatim>\<open>save:\<close> behind the prefix, is no number
  and is not refused: \<^verbatim>\<open>strtol\<close> converts nothing and leaves \<^verbatim>\<open>endptr\<close> at the
  start, which is also the end of the string, so the value is 0, the device is opened for
  writing and the LED byte 0 is submitted with the save flag.
\<close>

theorem empty_value_accepted:
  "strtol '''' = (0, '''')
   \<and> process_argument '''' = Inr (False, False, 0)
   \<and> process_argument ''save:'' = Inr (False, True, 0)
   \<and> main [''wdled'', ''/dev/sdb'', ''save:''] (my_passport genuine_pages) =
       (Inr (),
        \<lparr>calls = [Open ''/dev/sdb'' False 3, Inquiry 3 0 wd_inquiry,
                  GetModePage 3 0 genuine_pages,
                  ModeSelect 3 True True (select_buffer (current genuine_pages) 0) 0],
         stderr = [Identity ''/dev/sdb'' ''WD      '' ''My Passport 259F'' ''1012''],
         stdout = [report_line genuine_pages]\<rparr>)"
proof -
  have a: "strtol '''' = (0, '''')"
    by (simp add: arg_defs)
  have b: "process_argument '''' = Inr (False, False, 0)"
    by (simp add: arg_defs)
  have c: "process_argument ''save:'' = Inr (False, True, 0)"
    by (simp add: arg_defs)
  have d: "main [''wdled'', ''/dev/sdb'', ''save:''] (my_passport genuine_pages) =
       (Inr (),
        \<lparr>calls = [Open ''/dev/sdb'' False 3, Inquiry 3 0 wd_inquiry,
                  GetModePage 3 0 genuine_pages,
                  ModeSelect 3 True True (select_buffer (current genuine_pages) 0) 0],
         stderr = [Identity ''/dev/sdb'' ''WD      '' ''My Passport 259F'' ''1012''],
         stdout = [report_line genuine_pages]\<rparr>)"
    by (simp add: run_defs c my_passport_def disk_def validate_genuine_pages wd_inquiry_def)
  from a b c d show ?thesis by simp
qed

theorem empty_value_accepted_witness:
  "process_argument ''save:'' \<noteq> Inl (InvalidRequestedValue '''')
   \<and> exit_status (fst (main [''wdled'', ''/dev/sdb'', ''save:'']
        (my_passport genuine_pages))) = 0
   \<and> ModeSelect 3 True True (select_buffer (current genuine_pages) 0) 0
       \<in> set (calls (snd (main [''wdled'', ''/dev/sdb'', ''save:'']
            (my_passport genuine_pages))))"
  using empty_value_accepted by (simp add: exit_status_def)

subsection \<open>The report\<close>

text \<open>
  C6, as the code has it. When no value is given (two arguments, or \<^verbatim>\<open>FORCEGET\<close> as
  the third), the pages have been fetched and pass the checks, the run prints one line on
  the standard output, \<^verbatim>\<open>LED: current=<n> original=<n> saved=<n>\<close> with the LED bytes
  of the current, the original (default) and the saved page in decimal, ends with exit
  status 0 and makes no submission.
\<close>

theorem read_only_report:
  assumes a: "length argv = 2 \<or> argv ! 2 = ''FORCEGET''"
    and f: "GetModePage fd 0 ps \<in> set (calls (snd (main argv e)))"
    and v: "validate_pages ps = Inr ()"
  shows "stdout (snd (main argv e)) =
       [''LED: current='' @ dec (unat (led (wd21 (current ps))))
          @ '' original='' @ dec (unat (led (wd21 (original ps))))
          @ '' saved='' @ dec (unat (led (wd21 (saved ps))))]
    \<and> fst (main argv e) = Inr ()
    \<and> exit_status (fst (main argv e)) = 0
    \<and> (\<forall>fd' pf sp buf r. ModeSelect fd' pf sp buf r \<notin> set (calls (snd (main argv e))))"
proof (cases argv e rule: main_cases)
  case usage
  with f show ?thesis by simp
next
  case (invalid arg)
  with f show ?thesis by simp
next
  case (run force save new)
  from a run(2) have n: "new < 0" by simp
  from f run(1)
  have g: "GetModePage fd 0 ps \<in> set (calls (snd (run_device e (argv ! 1) force save new)))"
    by simp
  note h = run_device_fetched [OF g]
  have out: "stdout (snd (main argv e)) = [report_line ps]"
    using h v by (cases "check_supported force (snd (sg_simple_inquiry e fd))")
      (simp_all add: run(1) run_device_stdout Let_def)
  have res: "fst (main argv e) = Inr ()"
    using h v n by (simp add: run(1) run_device_result Let_def)
  have nosel: "\<forall>fd' pf sp buf r. ModeSelect fd' pf sp buf r \<notin> set (calls (snd (main argv e)))"
    using n by (auto simp: run(1) run_device_calls Let_def)
  show ?thesis using out res nosel by (simp add: exit_status_def report_line_def)
qed

theorem read_only_report_witness:
  "(length [''wdled'', ''/dev/sdb''] = 2 \<or> [''wdled'', ''/dev/sdb''] ! 2 = ''FORCEGET'')
   \<and> GetModePage 3 0 genuine_pages
       \<in> set (calls (snd (main [''wdled'', ''/dev/sdb''] (my_passport genuine_pages))))
   \<and> validate_pages genuine_pages = Inr ()
   \<and> stdout (snd (main [''wdled'', ''/dev/sdb''] (my_passport genuine_pages)))
       = [''LED: current=10 original=0 saved=10'']
   \<and> exit_status (fst (main [''wdled'', ''/dev/sdb''] (my_passport genuine_pages))) = 0"
  using read_only_report [of "[''wdled'', ''/dev/sdb'']" 3 genuine_pages
      "my_passport genuine_pages"]
  unfolding run_query by (simp add: validate_genuine_pages exit_status_def)

text \<open>
  The line in the form of the specification is not what is printed: on the genuine pages
  with the LED bytes 10, 0 and 10 the output is \<^verbatim>\<open>LED: current=10 original=0 saved=10\<close>,
  and \<^verbatim>\<open>current=10 default=0 saved=10\<close> is no part of it.
\<close>

theorem report_line_counterexample:
  "fst (main [''wdled'', ''/dev/sdb''] (my_passport genuine_pages)) = Inr ()
   \<and> stdout (snd (main [''wdled'', ''/dev/sdb''] (my_passport genuine_pages)))
       = [''LED: current=10 original=0 saved=10'']
   \<and> spec_report_line genuine_pages = ''current=10 default=0 saved=10''
   \<and> stdout (snd (main [''wdled'', ''/dev/sdb''] (my_passport genuine_pages)))
       \<noteq> [spec_report_line genuine_pages]
   \<and> \<not> sublist (spec_report_line genuine_pages)
         (concat (stdout (snd (main [''wdled'', ''/dev/sdb''] (my_passport genuine_pages)))))"
proof -
  have b: "spec_report_line genuine_pages = ''current=10 default=0 saved=10''"
    by (simp add: spec_report_line_def genuine_pages_def genuine_page_def dec.simps)
  have c: "\<not> sublist ''current=10 default=0 saved=10'' ''LED: current=10 original=0 saved=10''"
    by code_simp
  show ?thesis unfolding run_query b using c by simp
qed

subsection \<open>The override\<close>

text \<open>
  C9. In a run with the override token (\<^verbatim>\<open>FORCEGET\<close>, or a third argument that
  begins with \<^verbatim>\<open>FORCESET:\<close>) the run never ends with the unsupported-device error: after
  a successful inquiry the pages are fetched whatever the vendor and product are, and a
  vendor or product that is not in the tables leaves a warning on the error stream. Every
  other failure still ends the run with its own error and exit status 1: a failed open,
  a failed inquiry, a failed fetch, each of the four checks on the fetched pages, and a
  failed submission.
\<close>

theorem force_suppresses_only_unsupported_device:
  assumes len3: "length argv = 3"
    and tok: "argv ! 2 = ''FORCEGET'' \<or> take 9 (argv ! 2) = ''FORCESET:''"
  shows "(\<forall>w. fst (main argv e) \<noteq> Inl (UnsupportedDevice w))
    \<and> (\<forall>d ro fd. Open d ro fd \<in> set (calls (snd (main argv e))) \<and> fd < 0
          \<longrightarrow> fst (main argv e) = Inl (OpenFailed (- fd)))
    \<and> (\<forall>fd r inq. Inquiry fd r inq \<in> set (calls (snd (main argv e))) \<and> r \<noteq> 0
          \<longrightarrow> fst (main argv e) = Inl (InquiryFailed r))
    \<and> (\<forall>fd inq. Inquiry fd 0 inq \<in> set (calls (snd (main argv e)))
          \<longrightarrow> (\<exists>r ps. GetModePage fd r ps \<in> set (calls (snd (main argv e))))
            \<and> (check_supported False inq = Inl (UnsupportedDevice Vendor)
                 \<longrightarrow> SkippedVendorCheck \<in> set (stderr (snd (main argv e))))
            \<and> (check_supported False inq = Inl (UnsupportedDevice Product)
                 \<longrightarrow> SkippedDeviceCheck \<in> set (stderr (snd (main argv e)))))
    \<and> (\<forall>fd r ps. GetModePage fd r ps \<in> set (calls (snd (main argv e))) \<and> r \<noteq> 0
          \<longrightarrow> fst (main argv e) = Inl (FetchFailed r))
    \<and> (\<forall>fd ps err. GetModePage fd 0 ps \<in> set (calls (snd (main argv e)))
            \<and> validate_pages ps = Inl err
          \<longrightarrow> fst (main argv e) = Inl err)
    \<and> (\<forall>fd pf sp buf r. ModeSelect fd pf sp buf r \<in> set (calls (snd (main argv e)))
            \<and> r \<noteq> 0
          \<longrightarrow> fst (main argv e) = Inl (SubmitFailed r))
    \<and> (\<forall>err. fst (main argv e) = Inl err \<longrightarrow> exit_status (fst (main argv e)) = 1)"
proof (cases argv e rule: main_cases)
  case usage
  then show ?thesis by (simp add: exit_status_def)
next
  case (invalid arg)
  then show ?thesis by (simp add: exit_status_def)
next
  case (run force save new)
  from run(5) len3 have "process_argument (argv ! 2) = Inr (force, save, new)" by simp
  with tok have force: "force" using process_argument_force by blast
  let ?W = "snd (run_device e (argv ! 1) True save new)"
  let ?R = "fst (run_device e (argv ! 1) True save new)"
  have m: "main argv e = run_device e (argv ! 1) True save new"
    using run(1) force by simp
  have u: "\<forall>w. ?R \<noteq> Inl (UnsupportedDevice w)"
    using validate_pages_errors
    by (auto simp: run_device_forced_result Let_def)
  have c1: "\<forall>d ro fd. Open d ro fd \<in> set (calls ?W) \<and> fd < 0 \<longrightarrow> ?R = Inl (OpenFailed (- fd))"
    by (auto simp: run_device_forced_result run_device_calls Let_def split: if_splits)
  have c2: "\<forall>fd r inq. Inquiry fd r inq \<in> set (calls ?W) \<and> r \<noteq> 0
      \<longrightarrow> ?R = Inl (InquiryFailed r)"
    by (auto simp: run_device_forced_result run_device_calls Let_def split: if_splits)
  have c3: "\<forall>fd inq. Inquiry fd 0 inq \<in> set (calls ?W)
          \<longrightarrow> (\<exists>r ps. GetModePage fd r ps \<in> set (calls ?W))
            \<and> (check_supported False inq = Inl (UnsupportedDevice Vendor)
                 \<longrightarrow> SkippedVendorCheck \<in> set (stderr ?W))
            \<and> (check_supported False inq = Inl (UnsupportedDevice Product)
                 \<longrightarrow> SkippedDeviceCheck \<in> set (stderr ?W))"
    by (auto simp: run_device_calls run_device_stderr check_supported_force
        check_supported_strict Let_def split: if_splits)
  have c4: "\<forall>fd r ps. GetModePage fd r ps \<in> set (calls ?W) \<and> r \<noteq> 0
      \<longrightarrow> ?R = Inl (FetchFailed r)"
    by (auto simp: run_device_forced_result run_device_calls check_supported_force Let_def
        split: if_splits)
  have c5: "\<forall>fd ps err. GetModePage fd 0 ps \<in> set (calls ?W) \<and> validate_pages ps = Inl err
          \<longrightarrow> ?R = Inl err"
    by (auto simp: run_device_forced_result run_device_calls check_supported_force Let_def
        split: if_splits)
  have c6: "\<forall>fd pf sp buf r. ModeSelect fd pf sp buf r \<in> set (calls ?W) \<and> r \<noteq> 0
          \<longrightarrow> ?R = Inl (SubmitFailed r)"
    by (auto simp: run_device_forced_result run_device_calls check_supported_force Let_def
        split: if_splits)
  show ?thesis
    unfolding m using u c1 c2 c3 c4 c5 c6 by (simp add: exit_status_def)
qed

theorem force_suppresses_only_unsupported_device_witness:
  "length [''wdled'', ''/dev/sdb'', ''FORCESET:on''] = 3
   \<and> take 9 ([''wdled'', ''/dev/sdb'', ''FORCESET:on''] ! 2) = ''FORCESET:''
   \<and> check_supported False other_inquiry = Inl (UnsupportedDevice Vendor)
   \<and> Inquiry 3 0 other_inquiry
       \<in> set (calls (snd (main [''wdled'', ''/dev/sdb'', ''FORCESET:on'']
            (other_disk zero_pages))))
   \<and> SkippedVendorCheck
       \<in> set (stderr (snd (main [''wdled'', ''/dev/sdb'', ''FORCESET:on'']
            (other_disk zero_pages))))
   \<and> GetModePage 3 0 zero_pages
       \<in> set (calls (snd (main [''wdled'', ''/dev/sdb'', ''FORCESET:on'']
            (other_disk zero_pages))))
   \<and> validate_pages zero_pages = Inl (UnexpectedPageId 0)
   \<and> fst (main [''wdled'', ''/dev/sdb'', ''FORCESET:on''] (other_disk zero_pages))
       = Inl (UnexpectedPageId 0)"
  using force_suppresses_only_unsupported_device
    [of "[''wdled'', ''/dev/sdb'', ''FORCESET:on'']" "other_disk zero_pages"]
  unfolding run_forced_other
  by (simp add: validate_zero_pages check_supported_strict other_inquiry_def)

subsection \<open>The open\<close>

text \<open>
  C10. Every open that a run makes is on the device named by the first argument, and its
  read-only flag is set exactly when no value was requested: with two arguments, or with
  \<^verbatim>\<open>FORCEGET\<close> as the third. The open is the first device call of the run, before
  the inquiry and the fetch, and there is no second one; so a run with a value has the
  device open for writing before any page has been fetched or checked. The only runs that
  make no device call are those that end with the help text or with a refused value.
\<close>

theorem open_read_only_iff:
  "(\<forall>d ro fd. Open d ro fd \<in> set (calls (snd (main argv e)))
       \<longrightarrow> d = argv ! 1 \<and> (ro \<longleftrightarrow> length argv = 2 \<or> argv ! 2 = ''FORCEGET''))
   \<and> (calls (snd (main argv e)) = []
       \<or> (\<exists>fd rest. calls (snd (main argv e))
             = Open (argv ! 1) (length argv = 2 \<or> argv ! 2 = ''FORCEGET'') fd # rest
           \<and> (\<forall>c \<in> set rest. \<forall>d ro fd'. c \<noteq> Open d ro fd')))
   \<and> (calls (snd (main argv e)) = [] \<longleftrightarrow>
        fst (main argv e) = Inl Usage
        \<or> (\<exists>a. fst (main argv e) = Inl (InvalidRequestedValue a)))"
proof (cases argv e rule: main_cases)
  case usage
  then show ?thesis by simp
next
  case (invalid arg)
  then show ?thesis by simp
next
  case (run force save new)
  have a: "\<forall>d ro fd. Open d ro fd \<in> set (calls (snd (main argv e)))
       \<longrightarrow> d = argv ! 1 \<and> (ro \<longleftrightarrow> length argv = 2 \<or> argv ! 2 = ''FORCEGET'')"
    using run(2) by (auto simp: run(1) run_device_calls Let_def split: if_splits)
  have b: "\<exists>fd rest. calls (snd (main argv e))
             = Open (argv ! 1) (length argv = 2 \<or> argv ! 2 = ''FORCEGET'') fd # rest
           \<and> (\<forall>c \<in> set rest. \<forall>d ro fd'. c \<noteq> Open d ro fd')"
    using run(2) by (auto simp: run(1) run_device_calls Let_def)
  then have c: "calls (snd (main argv e)) \<noteq> []" by auto
  have d: "fst (main argv e) \<noteq> Inl Usage
      \<and> (\<forall>a. fst (main argv e) \<noteq> Inl (InvalidRequestedValue a))"
    using run_device_not_argument_error by (simp add: run(1))
  show ?thesis using a b c d by blast
qed

theorem open_read_only_iff_witness:
  "Open ''/dev/sdb'' False 3
     \<in> set (calls (snd (main [''wdled'', ''/dev/sdb'', ''save:off'']
          (my_passport genuine_pages))))
   \<and> \<not> (length [''wdled'', ''/dev/sdb'', ''save:off''] = 2
        \<or> [''wdled'', ''/dev/sdb'', ''save:off''] ! 2 = ''FORCEGET'')"
  using open_read_only_iff [of "[''wdled'', ''/dev/sdb'', ''save:off'']"
      "my_passport genuine_pages"]
  unfolding run_save_off by simp

end
